theory Spec2Isabelle
  imports Complex_Main "HOL-Library.Word" "HOL-Library.Multiset"
begin

text \<open>
  The Dashborg Go SDK: the cloud client (\<open>pkg/dashcloud/dbclient.go\<close>), the request of a
  panel handler (\<open>pkg/dash/dash.go\<close>), the description of blobs
  (\<open>pkg/dash/dashapp.go\<close>, \<open>pkg/dash/dashfs.go\<close>) and the registry of handlers and
  middleware (\<open>pkg/dash/runtime.go\<close>), as functions of HOL. A method with a pointer
  receiver takes the state it works on and returns it; calls that leave the program are
  returned as events; what a callee outside these files returns is a parameter.
\<close>

section \<open>Common Go types\<close>

text \<open>
  \<open>float64\<close>: only comparisons and one product matter in the modelled code. \<open>Val q\<close> is a
  value that is not NaN, placed on the rational line (the finite doubles and the two
  infinities embed in it in order); \<open>NaN\<close> compares false with everything.
\<close>

datatype float64 = NaN | Val rat

fun f64_gt :: "float64 \<Rightarrow> float64 \<Rightarrow> bool" where
  "f64_gt (Val a) (Val b) = (b < a)"
| "f64_gt _ _ = False"

text \<open>The product of two doubles, without the rounding of the result (exact whenever
  the mathematical product is itself a double, as for a whole number of megabytes).\<close>

fun f64_mul :: "float64 \<Rightarrow> float64 \<Rightarrow> float64" where
  "f64_mul (Val a) (Val b) = Val (a * b)"
| "f64_mul _ _ = NaN"

text \<open>\<open>float64(n)\<close> for a length \<open>n\<close> (exact below \<open>2^53\<close>).\<close>

definition f64_of_nat :: "nat \<Rightarrow> float64" where
  "f64_of_nat n = Val (of_nat n)"

text \<open>
  A Go \<open>error\<close> is an interface value; \<open>nil\<close> is \<open>None\<close> of \<open>error option\<close>.
  The constructors are the error values the modelled functions build themselves:
  \<open>Errorf s\<close> is \<open>fmt.Errorf\<close> with the formatted text \<open>s\<close>, \<open>ErrorfV s e t\<close> is
  \<open>fmt.Errorf\<close> whose format prints the error \<open>e\<close> with \<open>%v\<close> between the texts \<open>s\<close> and
  \<open>t\<close>. \<open>ExtErr\<close> is an error handed back by a callee outside the modelled code (a
  reader, the JSON encoder, the gRPC transport).
\<close>

datatype error =
    NotConnectedErr
  | LimitErr string string float64
  | ValidateErr error
  | Errorf string
  | ErrorfV string error string
  | ExtErr string

text \<open>A call either returns or panics.\<close>

datatype 'a outcome = Panicked string | Returned 'a

type_synonym int64 = "64 word"

section \<open>pkg/dashcloud/dbclient.go\<close>

definition mbConst :: float64 where
  "mbConst = Val 1000000"

text \<open>Modelled from the spec: the generated declaration of \<open>dashproto.AccInfo\<close> is not in
  the source tree. The account info holds the account kind and the limits; the code reads
  \<open>AccType\<close> and \<open>BlobSizeLimitMB\<close>, the latter in a \<open>float64\<close> comparison.\<close>

record AccInfo =
  AccType :: string
  BlobSizeLimitMB :: float64

text \<open>Of \<open>Config\<close> only the presence matters below (\<open>pc.Config == nil\<close>); \<open>Verbose\<close> governs
  logging, which is not modelled.\<close>

record Config =
  Verbose :: bool

datatype ClientConn = GrpcClientConn

text \<open>
  \<open>DashCloudClient\<close>. \<open>Lock\<close>, \<open>StartTime\<close>, \<open>ProcRunId\<close> and \<open>DBService\<close> play no part in
  the modelled functions. \<open>DoneCh\<close> is the channel's state: \<open>True\<close> once it is closed.
  \<open>'app\<close> is the \<open>*AppStruct\<close> stored for a connected application; a name that is not a key
  of the Go map reads as \<open>nil\<close>, here \<open>None\<close>.
\<close>

record 'app DashCloudClient =
  Config :: "Config option"
  Conn :: "ClientConn option"
  ConnId :: string
  AppMap :: "string \<rightharpoonup> 'app"
  DoneCh :: bool
  PermErr :: bool
  ExitErr :: "error option"
  AccInfo :: "AccInfo option"

text \<open>Modelled from the spec: the generated declarations of the protocol messages
  (\<open>dashproto.RequestMessage\<close>, \<open>SendResponseMessage\<close>, \<open>SetBlobMessage\<close>) are not in the
  source tree. The records hold the fields that the modelled functions read or set, under
  a prefix per message; every other field keeps its zero value. The spec's request is
  \<open>{reqId, appName, type, path, ..., feClientId, deadline}\<close>; \<open>TimeoutMs\<close> is compared with
  the constants 0 and 60000 and converted to a \<open>time.Duration\<close>, and is taken as an
  \<open>int64\<close>.\<close>

record RequestMessage =
  rmReqId :: string
  rmRequestType :: string
  rmPanelName :: string
  rmFeClientId :: string
  rmPath :: string
  rmTimeoutMs :: int64

record SendResponseMessage =
  srTs :: int64
  srReqId :: string
  srRequestType :: string
  srPanelName :: string
  srFeClientId :: string
  srResponseDone :: bool
  srErr :: string

record SetBlobMessage =
  sbTs :: int64
  sbAppName :: string
  sbAppVersion :: string
  sbBlobDataJson :: string
  sbBlobBytes :: "8 word list"

text \<open>
  What a function does to the outside world is returned as a list of events, in order.
  \<open>Rpc c m\<close> is a call that reaches \<open>pc.DBService\<close> with the metadata of \<open>ctxWithMd\<close>, the
  connection identity \<open>c\<close> read at that moment. \<open>DispatchRequest a d m\<close> is the call
  \<open>a.AppClient.DispatchRequest(ctx, m)\<close> into the application, \<open>d\<close> the timeout of \<open>ctx\<close> in
  nanoseconds (a \<open>time.Duration\<close>).
\<close>

datatype rpc =
    SendResponse SendResponseMessage
  | SetBlobOpen
  | SetBlobSend SetBlobMessage
  | SetBlobCloseAndRecv
  | RemoveAppRpc string

datatype 'app event =
    Rpc string rpc
  | DispatchRequest 'app int64 RequestMessage

definition setExitError :: "'app DashCloudClient \<Rightarrow> error option \<Rightarrow> 'app DashCloudClient" where
  "setExitError pc err = (if ExitErr pc = None then pc\<lparr>ExitErr := err\<rparr> else pc)"

definition GetExitError :: "'app DashCloudClient \<Rightarrow> error option" where
  "GetExitError pc = ExitErr pc"

text \<open>\<open>WaitForShutdown\<close> receives from \<open>DoneCh\<close> first: while the channel is open it does
  not return (\<open>None\<close>); once it is closed it returns \<open>GetExitError()\<close>.\<close>

definition WaitForShutdown :: "'app DashCloudClient \<Rightarrow> error option option" where
  "WaitForShutdown pc = (if DoneCh pc then Some (GetExitError pc) else None)"

definition IsConnected :: "'app DashCloudClient \<Rightarrow> bool" where
  "IsConnected pc =
     (if Config pc = None then False
      else if ExitErr pc \<noteq> None then False
      else if Conn pc = None then False
      else if ConnId pc = [] then False
      else True)"

definition sendNoAppResponse ::
  "'app DashCloudClient \<Rightarrow> int64 \<Rightarrow> RequestMessage \<Rightarrow> 'app event list" where
  "sendNoAppResponse pc ts reqMsg =
     [Rpc (ConnId pc) (SendResponse
        \<lparr>srTs = ts, srReqId = rmReqId reqMsg, srRequestType = rmRequestType reqMsg,
         srPanelName = rmPanelName reqMsg, srFeClientId = rmFeClientId reqMsg,
         srResponseDone = True, srErr = ''No App Found''\<rparr>)]"

text \<open>Lines 487-490 of \<open>runRequestStream\<close>: the timeout of a request in milliseconds.\<close>

definition requestTimeoutMs :: "int64 \<Rightarrow> int64" where
  "requestTimeoutMs timeoutMs = (if timeoutMs = 0 \<or> 60000 <s timeoutMs then 60000 else timeoutMs)"

text \<open>\<open>time.Duration(timeoutMs) * time.Millisecond\<close>: a 64-bit product, in nanoseconds.\<close>

definition requestTimeout :: "int64 \<Rightarrow> int64" where
  "requestTimeout timeoutMs = requestTimeoutMs timeoutMs * 1000000"

text \<open>The body of the goroutine that \<open>runRequestStream\<close> starts for each request
  (lines 485-503); \<open>ts\<close> is the reading of \<open>dashutil.Ts()\<close> in \<open>sendNoAppResponse\<close>.\<close>

definition runRequestStream_go ::
  "'app DashCloudClient \<Rightarrow> int64 \<Rightarrow> RequestMessage \<Rightarrow> 'app event list" where
  "runRequestStream_go pc ts reqMsg =
     (let timeout = requestTimeout (rmTimeoutMs reqMsg);
          appName = rmPanelName reqMsg
      in case AppMap pc appName of
           None \<Rightarrow> sendNoAppResponse pc ts reqMsg
         | Some appClient \<Rightarrow> [DispatchRequest appClient timeout reqMsg])"

text \<open>
  \<open>SendResponseProtoRpc\<close> and \<open>RemoveApp\<close>: \<open>reply\<close> is what \<open>handleStatusErrors\<close> makes of
  the server's answer (\<open>None\<close> when the status is OK), with the value read from it.
\<close>

definition SendResponseProtoRpc ::
  "'app DashCloudClient \<Rightarrow> error + int \<Rightarrow> SendResponseMessage \<Rightarrow> (error + int) \<times> 'app event list" where
  "SendResponseProtoRpc pc reply m =
     (if \<not> IsConnected pc then (Inl NotConnectedErr, [])
      else (reply, [Rpc (ConnId pc) (SendResponse m)]))"

definition RemoveApp ::
  "'app DashCloudClient \<Rightarrow> error option \<Rightarrow> string \<Rightarrow> error option \<times> 'app event list" where
  "RemoveApp pc reply appName =
     (if \<not> IsConnected pc then (Some NotConnectedErr, [])
      else (reply, [Rpc (ConnId pc) (RemoveAppRpc appName)]))"

text \<open>
  \<open>SetBlobData\<close>. The callees outside the modelled code are given by their results:
  \<open>blobJson\<close> is \<open>dashutil.MarshalJson(blob)\<close>, \<open>readAll\<close> is \<open>ioutil.ReadAll(r)\<close>, and
  \<open>openErr\<close>, \<open>sendErr\<close>, \<open>closeErr\<close> are the errors of the three steps of the
  client-streaming call (\<open>closeErr\<close> after \<open>handleStatusErrors\<close>). Reading
  \<open>pc.AccInfo.BlobSizeLimitMB\<close> through a nil \<open>AccInfo\<close> panics.
\<close>

record BlobTransport =
  openErr :: "error option"
  sendErr :: "error option"
  closeErr :: "error option"

definition SetBlobData ::
  "'app DashCloudClient \<Rightarrow> BlobTransport \<Rightarrow> int64 \<Rightarrow> string \<Rightarrow> string \<Rightarrow>
   error + string \<Rightarrow> error + 8 word list \<Rightarrow> error option outcome \<times> 'app event list" where
  "SetBlobData pc tr ts appName appVersion blobJson readAll =
     (if \<not> IsConnected pc then (Returned (Some NotConnectedErr), [])
      else case blobJson of
        Inl err \<Rightarrow> (Returned (Some err), [])
      | Inr blobJsonStr \<Rightarrow>
        (case readAll of
           Inl err \<Rightarrow> (Returned (Some err), [])
         | Inr barr \<Rightarrow>
           (case AccInfo pc of
              None \<Rightarrow> (Panicked ''nil pointer dereference'', [])
            | Some accInfo \<Rightarrow>
                if f64_gt (f64_of_nat (length barr)) (f64_mul (BlobSizeLimitMB accInfo) mbConst)
                then (Returned (Some (LimitErr ''Cannot upload BLOB'' ''AppBlobs.MaxSizeMB''
                                        (BlobSizeLimitMB accInfo))), [])
                else
                  (let m = \<lparr>sbTs = ts, sbAppName = appName, sbAppVersion = appVersion,
                            sbBlobDataJson = blobJsonStr, sbBlobBytes = barr\<rparr>;
                       c = ConnId pc
                   in case openErr tr of
                        Some err \<Rightarrow> (Returned (Some err), [Rpc c SetBlobOpen])
                      | None \<Rightarrow>
                        (case sendErr tr of
                           Some err \<Rightarrow> (Returned (Some err), [Rpc c SetBlobOpen, Rpc c (SetBlobSend m)])
                         | None \<Rightarrow>
                             (Returned (closeErr tr),
                              [Rpc c SetBlobOpen, Rpc c (SetBlobSend m), Rpc c SetBlobCloseAndRecv]))))))"

section \<open>pkg/dash/dashapp.go and pkg/dash/dashfs.go: describing a blob\<close>

type_synonym bytes = "8 word list"

text \<open>\<open>Metadata\<close> is an \<open>interface{}\<close>; \<open>None\<close> is nil.\<close>

record 'md BlobData =
  BlobKey :: string
  MimeType :: string
  Size :: int64
  Sha256 :: string
  UpdateTs :: int64
  Metadata :: "'md option"
  Removed :: bool

text \<open>\<open>BlobData{}\<close>, the zero value.\<close>

definition BlobData_zero :: "'md BlobData" where
  "BlobData_zero = \<lparr>BlobKey = [], MimeType = [], Size = 0, Sha256 = [], UpdateTs = 0,
                     Metadata = None, Removed = False\<rparr>"

text \<open>
  An \<open>io.ReadSeeker\<close> is seen through the three calls made on it, in order: the first
  \<open>Seek(0, 0)\<close>, \<open>io.Copy\<close> into the hash (the bytes read up to the end of the stream, or
  the error that stopped the copy), and the second \<open>Seek(0, 0)\<close>.
\<close>

record ReadSeeker =
  seekFirst :: "error option"
  copyAll :: "error + bytes"
  seekSecond :: "error option"

text \<open>\<open>sha256b64\<close> stands for the SHA-256 digest in standard base64.\<close>

definition BlobDataFromReadSeeker ::
  "(bytes \<Rightarrow> string) \<Rightarrow> string \<Rightarrow> string \<Rightarrow> ReadSeeker \<Rightarrow> 'md BlobData \<times> error option" where
  "BlobDataFromReadSeeker sha256b64 key mimeType r =
     (case seekFirst r of
        Some err \<Rightarrow> (BlobData_zero, None)
      | None \<Rightarrow>
        (case copyAll r of
           Inl err \<Rightarrow> (BlobData_zero, Some err)
         | Inr copied \<Rightarrow>
           (case seekSecond r of
              Some err \<Rightarrow> (BlobData_zero, Some err)
            | None \<Rightarrow>
                (\<lparr>BlobKey = key, MimeType = mimeType, Size = of_nat (length copied),
                  Sha256 = sha256b64 copied, UpdateTs = 0, Metadata = None, Removed = False\<rparr>,
                 None))))"

record FileOpts =
  foFileType :: string
  foSha256 :: string
  foSize :: int64
  foMimeType :: string
  foAllowedRoles :: "string list"
  foEditRoles :: "string list"
  foDisplay :: string
  foMetadataJson :: string
  foDescription :: string
  foNoMkDirs :: bool
  foHidden :: bool
  foAppConfigJson :: string

definition FileTypeStatic :: string where
  "FileTypeStatic = ''static''"

text \<open>\<open>UpdateFileOptsFromReadSeeker\<close> of dashfs.go, the same computation for a
  \<open>*FileOpts\<close> (\<open>None\<close> is the nil pointer); it returns the error and the updated
  options.\<close>

definition UpdateFileOptsFromReadSeeker ::
  "(bytes \<Rightarrow> string) \<Rightarrow> ReadSeeker \<Rightarrow> FileOpts option \<Rightarrow> error option \<times> FileOpts option" where
  "UpdateFileOptsFromReadSeeker sha256b64 r fileOpts =
     (case fileOpts of
        None \<Rightarrow> (Some (ValidateErr (Errorf ''Must pass non-nil FileOpts (set at least MimeType)'')), None)
      | Some opts \<Rightarrow>
        (case seekFirst r of
           Some err \<Rightarrow> (Some err, fileOpts)
         | None \<Rightarrow>
           (case copyAll r of
              Inl err \<Rightarrow> (Some err, fileOpts)
            | Inr copied \<Rightarrow>
              (case seekSecond r of
                 Some err \<Rightarrow> (Some err, fileOpts)
               | None \<Rightarrow>
                   (None, Some (opts\<lparr>foFileType := FileTypeStatic, foSha256 := sha256b64 copied,
                                     foSize := of_nat (length copied)\<rparr>))))))"

section \<open>pkg/dash/dash.go: the request of a panel handler\<close>

text \<open>Modelled from the spec: the generated declaration of \<open>dashproto.RRAction\<close> is not
  in the source tree. A response action is a tagged record with a timestamp; these are
  the fields the functions below set.\<close>

record RRAction =
  Ts :: int64
  ActionType :: string
  Selector :: string
  EventType :: string
  JsonData :: string
  Html :: string

text \<open>\<open>authAtom\<close>; \<open>'d\<close> is the type of \<open>interface{}\<close> values, \<open>None\<close> is nil.\<close>

record 'd authAtom =
  atomScope :: string
  atomType :: string
  atomAuto :: bool
  atomTs :: int64
  atomId :: string
  atomRole :: string
  atomData :: "'d option"

text \<open>
  \<open>PanelRequest\<close>, without \<open>Ctx\<close> and \<open>Lock\<close>. \<open>AuthData\<close> is a slice of atoms, \<open>None\<close>
  when the slice is nil. A method with a pointer receiver takes the request and returns
  it as the call leaves it.
\<close>

record 'd PanelRequest =
  PanelName :: string
  ReqId :: string
  RequestType :: string
  FeClientId :: string
  Path :: string
  Data :: "'d option"
  Model :: "'d option"
  AuthData :: "'d authAtom list option"
  RRActions :: "RRAction list"
  Err :: "error option"
  IsDone :: bool
  AuthImpl :: bool

definition appendRR :: "'d PanelRequest \<Rightarrow> RRAction \<Rightarrow> 'd PanelRequest" where
  "appendRR req rrAction = req\<lparr>RRActions := RRActions req @ [rrAction]\<rparr>"

text \<open>
  Callees that are not part of the source tree are parameters:
  \<open>marshalJson\<close> (the package's JSON encoder for a handler's value),
  \<open>jsonMarshal\<close> (\<open>json.Marshal\<close> on an \<open>authAtom\<close>, whose error the code discards),
  \<open>decode\<close> (\<open>mapstructure.Decode\<close> of \<open>AuthData\<close> into a slice of atoms) and
  \<open>sendRequestResponse\<close> (the client's sender, which may change the request).
  \<open>ts\<close>, \<open>ts1\<close>, \<open>ts2\<close> are the readings of \<open>dashutil.Ts()\<close> in the order the function takes
  them.
\<close>

definition SetData ::
  "('d \<Rightarrow> error + string) \<Rightarrow> int64 \<Rightarrow> 'd PanelRequest \<Rightarrow> string \<Rightarrow> 'd
   \<Rightarrow> error option \<times> 'd PanelRequest" where
  "SetData marshalJson ts req path data =
     (if IsDone req
      then (Some (Errorf (''Cannot call SetData(), path='' @ path @ '', PanelRequest is already done'')), req)
      else case marshalJson data of
        Inl err \<Rightarrow>
          (Some (ErrorfV (''Error marshaling json for SetData, path:'' @ path @ '', err:'') err
                   [CHR 0x0A]), req)
      | Inr jsonData \<Rightarrow>
          (None, appendRR req \<lparr>Ts = ts, ActionType = ''setdata'', Selector = path, EventType = [],
                                JsonData = jsonData, Html = []\<rparr>))"

definition SetHtml :: "int64 \<Rightarrow> 'd PanelRequest \<Rightarrow> string \<Rightarrow> error option \<times> 'd PanelRequest" where
  "SetHtml ts req html =
     (None, appendRR req \<lparr>Ts = ts, ActionType = ''html'', Selector = [], EventType = [],
                           JsonData = [], Html = html\<rparr>)"

definition isRootReq :: "'d PanelRequest \<Rightarrow> bool" where
  "isRootReq req = (RequestType req = ''handler'' \<and> PanelName req \<noteq> [] \<and> Path req = ''/'')"

definition appendPanelAuthRRAction ::
  "('d authAtom \<Rightarrow> string) \<Rightarrow> int64 \<Rightarrow> int64 \<Rightarrow> 'd PanelRequest \<Rightarrow> string \<Rightarrow> string
   \<Rightarrow> 'd PanelRequest" where
  "appendPanelAuthRRAction jsonMarshal ts1 ts2 req authType role =
     (let data = \<lparr>atomScope = [], atomType = authType, atomAuto = True,
                  atomTs = ts1 + (24 * 60 * 60 * 1000), atomId = [], atomRole = role,
                  atomData = None\<rparr>;
          jsonData = jsonMarshal data;
          rr = \<lparr>Ts = ts2, ActionType = ''panelauth'', Selector = [], EventType = [],
                JsonData = jsonData, Html = []\<rparr>
      in appendRR req rr)"

definition getRawAuthData ::
  "('d authAtom list \<Rightarrow> error + 'd authAtom list) \<Rightarrow> 'd PanelRequest \<Rightarrow> 'd authAtom list" where
  "getRawAuthData decode req =
     (case AuthData req of
        None \<Rightarrow> []
      | Some authData \<Rightarrow> (case decode authData of Inl err \<Rightarrow> [] | Inr rawAuth \<Rightarrow> rawAuth))"

definition isAuthenticated ::
  "('d authAtom list \<Rightarrow> error + 'd authAtom list) \<Rightarrow> 'd PanelRequest \<Rightarrow> bool" where
  "isAuthenticated decode req = (length (getRawAuthData decode req) > 0)"

definition NoAuth ::
  "('d authAtom list \<Rightarrow> error + 'd authAtom list) \<Rightarrow> ('d authAtom \<Rightarrow> string) \<Rightarrow> int64 \<Rightarrow> int64
   \<Rightarrow> 'd PanelRequest \<Rightarrow> 'd PanelRequest" where
  "NoAuth decode jsonMarshal ts1 ts2 req =
     (let req1 = req\<lparr>AuthImpl := True\<rparr>
      in if \<not> isAuthenticated decode req1
         then appendPanelAuthRRAction jsonMarshal ts1 ts2 req1 ''noauth'' ''user''
         else req1)"

definition InvalidateData ::
  "int64 \<Rightarrow> 'd PanelRequest \<Rightarrow> string \<Rightarrow> error option \<times> 'd PanelRequest" where
  "InvalidateData ts req path =
     (if IsDone req
      then (Some (Errorf (''Cannot call InvalidateData(), path='' @ path
                            @ '', PanelRequest is already done'')), req)
      else (None, appendRR req \<lparr>Ts = ts, ActionType = ''invalidate'', Selector = path,
                                 EventType = [], JsonData = [], Html = []\<rparr>))"

definition sendEvent ::
  "('d \<Rightarrow> error + string) \<Rightarrow> int64 \<Rightarrow> 'd PanelRequest \<Rightarrow> string \<Rightarrow> string \<Rightarrow> 'd
   \<Rightarrow> error option \<times> 'd PanelRequest" where
  "sendEvent marshalJson ts req selector eventType data =
     (if IsDone req
      then (Some (Errorf (''Cannot call SendEvent(), selector='' @ selector @ '', event='' @ eventType
                            @ '', PanelRequest is already done'')), req)
      else case marshalJson data of
        Inl err \<Rightarrow>
          (Some (ErrorfV (''Error marshaling json for SendEvent, selector:'' @ selector
                            @ '', event:'' @ eventType @ '', err:'') err [CHR 0x0A]), req)
      | Inr jsonData \<Rightarrow>
          (None, appendRR req \<lparr>Ts = ts, ActionType = ''event'', Selector = selector,
                                EventType = eventType, JsonData = jsonData, Html = []\<rparr>))"

definition flush ::
  "('d PanelRequest \<Rightarrow> bool \<Rightarrow> error option \<times> 'd PanelRequest) \<Rightarrow> 'd PanelRequest
   \<Rightarrow> error option \<times> 'd PanelRequest" where
  "flush sendRequestResponse req =
     (if IsDone req then (Some (Errorf ''Cannot Flush(), PanelRequest is already done''), req)
      else sendRequestResponse req False)"

definition Done ::
  "('d PanelRequest \<Rightarrow> bool \<Rightarrow> error option \<times> 'd PanelRequest)
   \<Rightarrow> ('d authAtom list \<Rightarrow> error + 'd authAtom list) \<Rightarrow> ('d authAtom \<Rightarrow> string) \<Rightarrow> int64 \<Rightarrow> int64
   \<Rightarrow> 'd PanelRequest \<Rightarrow> error option \<times> 'd PanelRequest" where
  "Done sendRequestResponse decode jsonMarshal ts1 ts2 req =
     (if IsDone req then (None, req)
      else let req1 = (if \<not> AuthImpl req \<and> isRootReq req
                       then NoAuth decode jsonMarshal ts1 ts2 req else req)
           in sendRequestResponse req1 True)"

section \<open>pkg/dash/runtime.go: handlers and middleware of an application\<close>

text \<open>
  A handler returns the pair \<open>(interface{}, error)\<close>; \<open>'v\<close> is the type of the values, nil
  is \<open>None\<close>.

  Modelled from the spec: the declarations of \<open>AppRequest\<close>, \<open>MiddlewareFuncType\<close>,
  \<open>MiddlewareNextFuncType\<close> and \<open>middlewareType\<close> are not in the source tree.
  \<open>'p AppRequest\<close> is the request as far as \<open>RunHandler\<close> reads it: \<open>PathFrag\<close> is
  \<open>req.info.PathFrag\<close> and \<open>FullPath\<close> the string returned by
  \<open>req.RequestInfo().FullPath()\<close>. The spec's middleware entry is \<open>{name, fn, priority}\<close>,
  built in the source as \<open>middlewareType{Name: name, Fn: mwFunc, Priority: priority}\<close> with
  a \<open>float64\<close> priority; position \<open>i\<close> of a chain invokes \<open>mws[i].fn(req, nextFn)\<close>.
\<close>

type_synonym 'v result = "'v option \<times> error option"

record 'p AppRequest =
  PathFrag :: string
  FullPath :: string
  Payload :: 'p

text \<open>
  \<open>MiddlewareFuncType\<close> is \<open>func(req *AppRequest, nextFn MiddlewareNextFuncType)\<close>, and
  \<open>nextFn\<close> takes a \<open>*AppRequest\<close> that may be nil (\<open>None\<close>). A Go func value may itself
  be nil (\<open>None\<close>); calling it panics.
\<close>

type_synonym ('p, 'v) MiddlewareNextFuncType = "'p AppRequest option \<Rightarrow> 'v result outcome"

type_synonym ('p, 'v) MiddlewareFuncType =
  "'p AppRequest \<Rightarrow> ('p, 'v) MiddlewareNextFuncType \<Rightarrow> 'v result outcome"

record ('p, 'v) middlewareType =
  Name :: string
  Fn :: "('p, 'v) MiddlewareFuncType option"
  Priority :: float64

record ('p, 'v) appHandlerType =
  HandlerFn :: "('p AppRequest \<Rightarrow> 'v result outcome) option"

definition middlewareType_zero :: "('p, 'v) middlewareType" where
  "middlewareType_zero = \<lparr>Name = [], Fn = None, Priority = Val 0\<rparr>"

subsection \<open>Slices of middleware\<close>

text \<open>
  A Go slice is a view of a backing array that other slices may share, so the arrays
  live in a store: \<open>cells h a\<close> is the array at address \<open>a\<close> (its length is its capacity)
  and \<open>nextAddr h\<close> the next unused address. A slice value is the header
  \<open>(pointer, length, capacity)\<close>; the nil slice has length and capacity 0.
\<close>

record ('p, 'v) mwStore =
  cells :: "nat \<Rightarrow> ('p, 'v) middlewareType list"
  nextAddr :: nat

record slice =
  slPtr :: nat
  slLen :: nat
  slCap :: nat

definition nilSlice :: slice where
  "nilSlice = \<lparr>slPtr = 0, slLen = 0, slCap = 0\<rparr>"

definition emptyStore :: "('p, 'v) mwStore" where
  "emptyStore = \<lparr>cells = (\<lambda>a. []), nextAddr = 0\<rparr>"

text \<open>The elements seen through a slice: \<open>s[0], ..., s[len(s)-1]\<close>.\<close>

definition sliceElems :: "('p, 'v) mwStore \<Rightarrow> slice \<Rightarrow> ('p, 'v) middlewareType list" where
  "sliceElems h s = take (slLen s) (cells h (slPtr s))"

text \<open>\<open>make([]middlewareType, n)\<close>: a new array of \<open>n\<close> zero values.\<close>

definition make_slice :: "nat \<Rightarrow> ('p, 'v) mwStore \<Rightarrow> slice \<times> ('p, 'v) mwStore" where
  "make_slice n h =
     (\<lparr>slPtr = nextAddr h, slLen = n, slCap = n\<rparr>,
      h\<lparr>cells := (cells h)(nextAddr h := replicate n middlewareType_zero),
        nextAddr := Suc (nextAddr h)\<rparr>)"

text \<open>\<open>copy(dst, src)\<close> writes the first \<open>min(len(dst), len(src))\<close> elements of \<open>src\<close>
  into the array of \<open>dst\<close>.\<close>

definition copy_slice :: "slice \<Rightarrow> slice \<Rightarrow> ('p, 'v) mwStore \<Rightarrow> ('p, 'v) mwStore" where
  "copy_slice dst src h =
     (let n = min (slLen dst) (slLen src)
      in h\<lparr>cells := (cells h)(slPtr dst :=
              take n (cells h (slPtr src)) @ drop n (cells h (slPtr dst)))\<rparr>)"

text \<open>\<open>s[i] = v\<close>, for an index below \<open>len(s)\<close> (the only use below writes the last
  element of a slice that was just made one longer).\<close>

definition set_index ::
  "slice \<Rightarrow> nat \<Rightarrow> ('p, 'v) middlewareType \<Rightarrow> ('p, 'v) mwStore \<Rightarrow> ('p, 'v) mwStore" where
  "set_index s i v h = h\<lparr>cells := (cells h)(slPtr s := (cells h (slPtr s))[i := v])\<rparr>"

text \<open>
  \<open>sort.Slice(s, less)\<close> reorders the elements of \<open>s\<close> in place. The library function is
  the parameter \<open>srt\<close>, the list it leaves for the list it finds; the comparison is the
  one \<open>addMiddlewares\<close> passes, \<open>mw1.Priority > mw2.Priority\<close>.
\<close>

definition sort_Slice ::
  "(('p, 'v) middlewareType list \<Rightarrow> ('p, 'v) middlewareType list) \<Rightarrow> slice
   \<Rightarrow> ('p, 'v) mwStore \<Rightarrow> ('p, 'v) mwStore" where
  "sort_Slice srt s h =
     h\<lparr>cells := (cells h)(slPtr s :=
          srt (take (slLen s) (cells h (slPtr s))) @ drop (slLen s) (cells h (slPtr s)))\<rparr>"

text \<open>
  \<open>append(s, v)\<close>: in place when the capacity allows, otherwise into a new array whose
  capacity the runtime chooses (\<open>grow\<close>, from the old capacity; at least \<open>len(s) + 1\<close>).
\<close>

definition append_slice ::
  "(nat \<Rightarrow> nat) \<Rightarrow> slice \<Rightarrow> ('p, 'v) middlewareType \<Rightarrow> ('p, 'v) mwStore
   \<Rightarrow> slice \<times> ('p, 'v) mwStore" where
  "append_slice grow s v h =
     (if slLen s < slCap s
      then (s\<lparr>slLen := slLen s + 1\<rparr>,
            h\<lparr>cells := (cells h)(slPtr s := (cells h (slPtr s))[slLen s := v])\<rparr>)
      else let c = max (slLen s + 1) (grow (slCap s))
           in (\<lparr>slPtr = nextAddr h, slLen = slLen s + 1, slCap = c\<rparr>,
               h\<lparr>cells := (cells h)(nextAddr h :=
                     take (slLen s) (cells h (slPtr s)) @ [v]
                     @ replicate (c - (slLen s + 1)) middlewareType_zero),
                 nextAddr := Suc (nextAddr h)\<rparr>))"

subsection \<open>The registry\<close>

text \<open>\<open>AppRuntimeImpl\<close>, without \<open>lock\<close> and \<open>appStateType\<close>. A method takes the store and
  the registry and returns both.\<close>

record ('p, 'v) AppRuntimeImpl =
  handlers :: "string \<rightharpoonup> ('p, 'v) appHandlerType"
  middlewares :: slice
  errs :: "error list"

definition MakeAppRuntime :: "('p, 'v) AppRuntimeImpl" where
  "MakeAppRuntime = \<lparr>handlers = Map.empty, middlewares = nilSlice, errs = []\<rparr>"

definition setHandler ::
  "string \<Rightarrow> ('p, 'v) appHandlerType \<Rightarrow> ('p, 'v) AppRuntimeImpl \<Rightarrow> ('p, 'v) AppRuntimeImpl" where
  "setHandler path handler app = app\<lparr>handlers := (handlers app)(path \<mapsto> handler)\<rparr>"

definition addMiddlewares ::
  "(('p, 'v) middlewareType list \<Rightarrow> ('p, 'v) middlewareType list) \<Rightarrow> slice
   \<Rightarrow> ('p, 'v) middlewareType \<Rightarrow> ('p, 'v) mwStore \<Rightarrow> slice \<times> ('p, 'v) mwStore" where
  "addMiddlewares srt mws mw h =
     (let (newmws, h1) = make_slice (slLen mws + 1) h;
          h2 = copy_slice newmws mws h1;
          h3 = set_index newmws (slLen mws) mw h2;
          h4 = sort_Slice srt newmws h3
      in (newmws, h4))"

text \<open>The loop of \<open>removeMiddleware\<close>, from index \<open>i\<close> of \<open>mws\<close> on.\<close>

function removeMiddleware_loop ::
  "(nat \<Rightarrow> nat) \<Rightarrow> string \<Rightarrow> slice \<Rightarrow> nat \<Rightarrow> slice \<Rightarrow> ('p, 'v) mwStore
   \<Rightarrow> slice \<times> ('p, 'v) mwStore" where
  "removeMiddleware_loop grow name mws i newmws h =
     (if i < slLen mws
      then let mw = cells h (slPtr mws) ! i
           in if Name mw = name
              then removeMiddleware_loop grow name mws (i + 1) newmws h
              else let (newmws', h') = append_slice grow newmws mw h
                   in removeMiddleware_loop grow name mws (i + 1) newmws' h'
      else (newmws, h))"
  by pat_completeness auto
termination
  by (relation "measure (\<lambda>(grow, name, mws, i, newmws, h). slLen mws - i)") auto

definition removeMiddleware ::
  "(nat \<Rightarrow> nat) \<Rightarrow> slice \<Rightarrow> string \<Rightarrow> ('p, 'v) mwStore \<Rightarrow> slice \<times> ('p, 'v) mwStore" where
  "removeMiddleware grow mws name h =
     (let (newmws, h1) = make_slice 0 h
      in removeMiddleware_loop grow name mws 0 newmws h1)"

definition RemoveMiddleware ::
  "(nat \<Rightarrow> nat) \<Rightarrow> string \<Rightarrow> ('p, 'v) mwStore \<times> ('p, 'v) AppRuntimeImpl
   \<Rightarrow> ('p, 'v) mwStore \<times> ('p, 'v) AppRuntimeImpl" where
  "RemoveMiddleware grow name st =
     (let (h, apprt) = st;
          (mws, h') = removeMiddleware grow (middlewares apprt) name h
      in (h', apprt\<lparr>middlewares := mws\<rparr>))"

text \<open>
  \<open>AddRawMiddleware\<close> calls \<open>RemoveMiddleware\<close>, which takes and releases the lock, and
  then takes the lock again for the rest of its body, \<open>AddRawMiddleware_locked\<close>.
\<close>

definition AddRawMiddleware_locked ::
  "(('p, 'v) middlewareType list \<Rightarrow> ('p, 'v) middlewareType list) \<Rightarrow> string
   \<Rightarrow> ('p, 'v) MiddlewareFuncType option \<Rightarrow> float64
   \<Rightarrow> ('p, 'v) mwStore \<times> ('p, 'v) AppRuntimeImpl \<Rightarrow> ('p, 'v) mwStore \<times> ('p, 'v) AppRuntimeImpl" where
  "AddRawMiddleware_locked srt name mwFunc priority st =
     (let (h, apprt) = st;
          newmw = \<lparr>Name = name, Fn = mwFunc, Priority = priority\<rparr>;
          (mws, h') = addMiddlewares srt (middlewares apprt) newmw h
      in (h', apprt\<lparr>middlewares := mws\<rparr>))"

definition AddRawMiddleware ::
  "(('p, 'v) middlewareType list \<Rightarrow> ('p, 'v) middlewareType list) \<Rightarrow> (nat \<Rightarrow> nat) \<Rightarrow> string
   \<Rightarrow> ('p, 'v) MiddlewareFuncType option \<Rightarrow> float64
   \<Rightarrow> ('p, 'v) mwStore \<times> ('p, 'v) AppRuntimeImpl \<Rightarrow> ('p, 'v) mwStore \<times> ('p, 'v) AppRuntimeImpl" where
  "AddRawMiddleware srt grow name mwFunc priority st =
     AddRawMiddleware_locked srt name mwFunc priority (RemoveMiddleware grow name st)"

text \<open>
  What goroutines do to the registry, as values: each is one critical section, and a
  sequence of them is carried out in order. \<open>CallAddLocked\<close> is the second critical
  section of an \<open>AddRawMiddleware\<close> whose first one, the \<open>RemoveMiddleware\<close>, took
  effect earlier with other calls in between; \<open>CallAddRawMiddleware\<close> is both without
  anything in between.
\<close>

datatype ('p, 'v) registryCall =
    CallAddRawMiddleware string "('p, 'v) MiddlewareFuncType option" float64
  | CallAddLocked string "('p, 'v) MiddlewareFuncType option" float64
  | CallRemoveMiddleware string
  | CallSetHandler string "('p, 'v) appHandlerType"

fun applyCall ::
  "(('p, 'v) middlewareType list \<Rightarrow> ('p, 'v) middlewareType list) \<Rightarrow> (nat \<Rightarrow> nat)
   \<Rightarrow> ('p, 'v) mwStore \<times> ('p, 'v) AppRuntimeImpl \<Rightarrow> ('p, 'v) registryCall
   \<Rightarrow> ('p, 'v) mwStore \<times> ('p, 'v) AppRuntimeImpl" where
  "applyCall srt grow st (CallAddRawMiddleware name mwFunc priority) =
     AddRawMiddleware srt grow name mwFunc priority st"
| "applyCall srt grow st (CallAddLocked name mwFunc priority) =
     AddRawMiddleware_locked srt name mwFunc priority st"
| "applyCall srt grow st (CallRemoveMiddleware name) = RemoveMiddleware grow name st"
| "applyCall srt grow st (CallSetHandler path handler) = (fst st, setHandler path handler (snd st))"

definition applyCalls ::
  "(('p, 'v) middlewareType list \<Rightarrow> ('p, 'v) middlewareType list) \<Rightarrow> (nat \<Rightarrow> nat)
   \<Rightarrow> ('p, 'v) mwStore \<times> ('p, 'v) AppRuntimeImpl \<Rightarrow> ('p, 'v) registryCall list
   \<Rightarrow> ('p, 'v) mwStore \<times> ('p, 'v) AppRuntimeImpl" where
  "applyCalls srt grow st calls = foldl (applyCall srt grow) st calls"

subsection \<open>Running a handler through the middleware\<close>





subsection \<open>The chain as the specification words it\<close>


subsection \<open>What \<open>sort.Slice\<close> promises, and two sorting functions\<close>

text \<open>No later entry has a higher priority than an earlier one.\<close>

definition descending :: "('p, 'v) middlewareType list \<Rightarrow> bool" where
  "descending mws = sorted_wrt (\<lambda>a b. \<not> f64_gt (Priority b) (Priority a)) mws"

text \<open>
  The contract of \<open>sort.Slice\<close> for the comparison of \<open>addMiddlewares\<close>: the slice is
  permuted, and it is left in descending order when the comparison is a strict weak
  order on its elements, that is when no priority is NaN. The library documents that
  the sort is not guaranteed to be stable.
\<close>

definition sortSliceSpec ::
  "(('p, 'v) middlewareType list \<Rightarrow> ('p, 'v) middlewareType list) \<Rightarrow> bool" where
  "sortSliceSpec srt =
     ((\<forall>xs. mset (srt xs) = mset xs)
      \<and> (\<forall>xs. (\<forall>m \<in> set xs. Priority m \<noteq> NaN) \<longrightarrow> descending (srt xs)))"

text \<open>
  Insertion sort as the library writes it: the element at index \<open>i\<close> moves left while
  it is greater than its left neighbour. \<open>insertLeft x acc\<close> places \<open>x\<close> into the sorted
  prefix \<open>acc\<close>, which is held nearest neighbour first.
\<close>

fun insertLeft :: "('p, 'v) middlewareType \<Rightarrow> ('p, 'v) middlewareType list \<Rightarrow> ('p, 'v) middlewareType list" where
  "insertLeft x [] = [x]"
| "insertLeft x (y # ys) =
     (if f64_gt (Priority x) (Priority y) then y # insertLeft x ys else x # y # ys)"

definition insertionSort_func :: "('p, 'v) middlewareType list \<Rightarrow> ('p, 'v) middlewareType list" where
  "insertionSort_func xs = rev (foldl (\<lambda>acc x. insertLeft x acc) [] xs)"




subsection \<open>The chain of a registry state\<close>

text \<open>The entries seen through the registry's slice, and the states in which that slice
  lies within its array.\<close>

definition mwList :: "('p, 'v) mwStore \<times> ('p, 'v) AppRuntimeImpl \<Rightarrow> ('p, 'v) middlewareType list" where
  "mwList st = sliceElems (fst st) (middlewares (snd st))"

definition validSlice :: "('p, 'v) mwStore \<Rightarrow> slice \<Rightarrow> bool" where
  "validSlice h s = (slLen s \<le> length (cells h (slPtr s)) \<and> (slLen s = 0 \<or> slPtr s < nextAddr h))"

definition ownSlice :: "('p, 'v) mwStore \<Rightarrow> slice \<Rightarrow> bool" where
  "ownSlice h s = (slLen s \<le> slCap s \<and> slCap s \<le> length (cells h (slPtr s)))"

definition wfState :: "('p, 'v) mwStore \<times> ('p, 'v) AppRuntimeImpl \<Rightarrow> bool" where
  "wfState st = validSlice (fst st) (middlewares (snd st))"

text \<open>\<open>h'\<close> keeps every array that \<open>h\<close> has allocated as it is.\<close>

definition extendsStore :: "('p, 'v) mwStore \<Rightarrow> ('p, 'v) mwStore \<Rightarrow> bool" where
  "extendsStore h h' = (nextAddr h \<le> nextAddr h' \<and> (\<forall>a < nextAddr h. cells h' a = cells h a))"

text \<open>A call that passes a priority passes a number.\<close>

fun callPriorityIsNumber :: "('p, 'v) registryCall \<Rightarrow> bool" where
  "callPriorityIsNumber (CallAddRawMiddleware name mwFunc priority) = (priority \<noteq> NaN)"
| "callPriorityIsNumber (CallAddLocked name mwFunc priority) = (priority \<noteq> NaN)"
| "callPriorityIsNumber (CallRemoveMiddleware name) = True"
| "callPriorityIsNumber (CallSetHandler path handler) = True"

text \<open>The prefix that \<open>insertLeft\<close> works on is in order, nearest neighbour first.\<close>

definition ascendingAcc :: "('p, 'v) middlewareType list \<Rightarrow> bool" where
  "ascendingAcc acc = sorted_wrt (\<lambda>a b. \<not> f64_gt (Priority a) (Priority b)) acc"

text \<open>A state whose chain is in descending order and holds no NaN priority.\<close>

definition orderedState :: "('p, 'v) mwStore \<times> ('p, 'v) AppRuntimeImpl \<Rightarrow> bool" where
  "orderedState st = (wfState st \<and> descending (mwList st)
      \<and> (\<forall>m \<in> set (mwList st). Priority m \<noteq> NaN))"



section \<open>Concrete states and requests used below\<close>

text \<open>A connected client of an anonymous account with a limit of 1 MB per blob and no
  application connected, and a request for the application \<open>zzz\<close>.\<close>

definition client0 :: "nat DashCloudClient" where
  "client0 = \<lparr>Config = Some \<lparr>Verbose = False\<rparr>, Conn = Some GrpcClientConn, ConnId = ''c1'',
              AppMap = Map.empty, DoneCh = False, PermErr = False, ExitErr = None,
              AccInfo = Some \<lparr>AccType = ''anon'', BlobSizeLimitMB = Val 1\<rparr>\<rparr>"

definition reqZzz :: RequestMessage where
  "reqZzz = \<lparr>rmReqId = ''r2'', rmRequestType = ''handler'', rmPanelName = ''zzz'',
             rmFeClientId = ''fe1'', rmPath = ''/'', rmTimeoutMs = 0\<rparr>"

text \<open>A client whose connection identity has been cleared (as after a \<open>BadConnId\<close>
  status), with no application connected.\<close>

definition clientNoConnId :: "nat DashCloudClient" where
  "clientNoConnId = client0\<lparr>ConnId := []\<rparr>"

text \<open>A reader whose first \<open>Seek\<close> fails.\<close>

definition failingSeeker :: ReadSeeker where
  "failingSeeker = \<lparr>seekFirst = Some (ExtErr ''seek: file already closed''),
                     copyAll = Inr [], seekSecond = None\<rparr>"

text \<open>A root handler request with one action so far, and the same request once done.\<close>

definition rootReq :: "nat PanelRequest" where
  "rootReq = \<lparr>PanelName = ''a'', ReqId = ''r1'', RequestType = ''handler'', FeClientId = ''fe1'',
              Path = ''/'', Data = None, Model = None, AuthData = None,
              RRActions = [\<lparr>Ts = 900, ActionType = ''setdata'', Selector = ''$.x'', EventType = [],
                            JsonData = ''42'', Html = []\<rparr>],
              Err = None, IsDone = False, AuthImpl = False\<rparr>"

definition doneReq :: "nat PanelRequest" where
  "doneReq = rootReq\<lparr>IsDone := True\<rparr>"

text \<open>The same root request arriving with the atom of a signed-in user.\<close>

definition userAtom :: "nat authAtom" where
  "userAtom = \<lparr>atomScope = ''zone'', atomType = ''dashborg'', atomAuto = False, atomTs = 5000,
               atomId = ''u1'', atomRole = ''user'', atomData = None\<rparr>"

definition authedRootReq :: "nat PanelRequest" where
  "authedRootReq = rootReq\<lparr>AuthData := Some [userAtom]\<rparr>"










section \<open>Exit error\<close>

lemma setExitError_latched:
  "ExitErr pc = Some e \<Longrightarrow> setExitError pc err = pc"
  by (simp add: setExitError_def)

lemma foldl_setExitError_latched:
  "ExitErr pc = Some e \<Longrightarrow> foldl setExitError pc later = pc"
  by (induction later) (simp_all add: setExitError_latched)

text \<open>
  C10. Once \<open>setExitError\<close> has stored a non-nil error \<open>e\<close>, any further sequence of
  \<open>setExitError\<close> calls leaves the client as it is, \<open>GetExitError\<close> returns \<open>e\<close>, and
  \<open>WaitForShutdown\<close>, once the done channel is closed, returns \<open>e\<close> too.
\<close>

theorem setExitError_first_wins:
  assumes "ExitErr pc = None"
  shows "foldl setExitError (setExitError pc (Some e)) later = setExitError pc (Some e)
       \<and> GetExitError (foldl setExitError (setExitError pc (Some e)) later) = Some e
       \<and> WaitForShutdown ((foldl setExitError (setExitError pc (Some e)) later)\<lparr>DoneCh := True\<rparr>)
           = Some (Some e)"
proof -
  have stored: "ExitErr (setExitError pc (Some e)) = Some e"
    using assms by (simp add: setExitError_def)
  have fixed: "foldl setExitError (setExitError pc (Some e)) later = setExitError pc (Some e)"
    by (rule foldl_setExitError_latched [OF stored])
  show ?thesis
    by (simp add: fixed stored GetExitError_def WaitForShutdown_def)
qed

theorem setExitError_first_wins_witness:
  "ExitErr client0 = None
   \<and> GetExitError (foldl setExitError (setExitError client0 (Some (Errorf ''gRPC Connection Shutdown'')))
        [Some (Errorf ''ShutdownCh channel closed''), None, Some NotConnectedErr])
     = Some (Errorf ''gRPC Connection Shutdown'')"
proof -
  have h: "ExitErr client0 = None" by (simp add: client0_def)
  show ?thesis
    using h setExitError_first_wins [OF h, of "Errorf ''gRPC Connection Shutdown''"
        "[Some (Errorf ''ShutdownCh channel closed''), None, Some NotConnectedErr]"]
    by blast
qed

section \<open>Request timeout\<close>

lemma requestTimeout_capped: "t = 0 \<or> 60000 <s t \<Longrightarrow> requestTimeout t = 60000000000"
  by (auto simp: requestTimeout_def requestTimeoutMs_def)

text \<open>The product does not wrap unless the server's value is below -9223372036854.\<close>

lemma requestTimeout_exact:
  assumes "- 9223372036854 \<le> sint t" and "sint t \<le> 60000" and "t \<noteq> 0"
  shows "sint (requestTimeout t) = sint t * 1000000"
proof -
  from assms have ms: "requestTimeoutMs t = t"
    by (auto simp: requestTimeoutMs_def word_sless_alt)
  have "sint (t * 1000000) = signed_take_bit 63 (sint t * 1000000)"
    by (simp add: sint_word_ariths)
  also have "\<dots> = sint t * 1000000"
    using assms by (intro signed_take_bit_int_eq_self) simp_all
  finally show ?thesis
    by (simp add: requestTimeout_def ms)
qed


section \<open>Requests for an application that is not connected\<close>

text \<open>
  C7. When the application named by a request is not in \<open>AppMap\<close>, the goroutine that
  handles the request makes exactly one call to the outside: a \<open>SendResponse\<close> for the
  request's \<open>ReqId\<close> with \<open>ResponseDone\<close> set and \<open>Err\<close> "No App Found"; nothing is
  dispatched to an application.
\<close>

theorem no_app_single_terminal_response:
  assumes "AppMap pc (rmPanelName reqMsg) = None"
  shows "runRequestStream_go pc ts reqMsg =
           [Rpc (ConnId pc) (SendResponse
              \<lparr>srTs = ts, srReqId = rmReqId reqMsg, srRequestType = rmRequestType reqMsg,
               srPanelName = rmPanelName reqMsg, srFeClientId = rmFeClientId reqMsg,
               srResponseDone = True, srErr = ''No App Found''\<rparr>)]
       \<and> [e \<leftarrow> runRequestStream_go pc ts reqMsg. \<exists>a d m. e = DispatchRequest a d m] = []"
  using assms by (simp add: runRequestStream_go_def sendNoAppResponse_def)

theorem no_app_single_terminal_response_witness:
  "AppMap client0 (rmPanelName reqZzz) = None
   \<and> runRequestStream_go client0 7 reqZzz =
       [Rpc ''c1'' (SendResponse
          \<lparr>srTs = 7, srReqId = ''r2'', srRequestType = ''handler'', srPanelName = ''zzz'',
           srFeClientId = ''fe1'', srResponseDone = True, srErr = ''No App Found''\<rparr>)]"
proof -
  have h: "AppMap client0 (rmPanelName reqZzz) = None"
    by (simp add: client0_def)
  show ?thesis
    using h no_app_single_terminal_response [OF h, of 7]
    by (simp add: client0_def reqZzz_def)
qed

section \<open>Calls made without a connection identity\<close>

lemma SendResponseProtoRpc_guarded:
  "ConnId pc = [] \<Longrightarrow> SendResponseProtoRpc pc reply m = (Inl NotConnectedErr, [])"
  by (simp add: SendResponseProtoRpc_def IsConnected_def)

lemma RemoveApp_guarded:
  "ConnId pc = [] \<Longrightarrow> RemoveApp pc reply appName = (Some NotConnectedErr, [])"
  by (simp add: RemoveApp_def IsConnected_def)

lemma SetBlobData_guarded:
  "ConnId pc = [] \<Longrightarrow>
   SetBlobData pc tr ts appName appVersion blobJson readAll = (Returned (Some NotConnectedErr), [])"
  by (simp add: SetBlobData_def IsConnected_def)

text \<open>
  C5. With an empty connection identity the guarded sender \<open>SendResponseProtoRpc\<close>
  returns \<open>NotConnectedErr\<close> and calls nothing, but \<open>sendNoAppResponse\<close>, which has no
  \<open>IsConnected\<close> check, still issues its \<open>SendResponse\<close> call, carrying the empty
  identity.
\<close>

theorem sendNoAppResponse_without_ConnId:
  "\<not> IsConnected clientNoConnId
   \<and> SendResponseProtoRpc clientNoConnId (Inr 0) m = (Inl NotConnectedErr, [])
   \<and> runRequestStream_go clientNoConnId 7 reqZzz =
       [Rpc [] (SendResponse
          \<lparr>srTs = 7, srReqId = ''r2'', srRequestType = ''handler'', srPanelName = ''zzz'',
           srFeClientId = ''fe1'', srResponseDone = True, srErr = ''No App Found''\<rparr>)]"
  by (simp add: clientNoConnId_def client0_def reqZzz_def IsConnected_def
      SendResponseProtoRpc_def runRequestStream_go_def sendNoAppResponse_def)

section \<open>Blob size limit\<close>




section \<open>Seek errors while describing a blob\<close>

lemma BlobDataFromReadSeeker_seekFirst_error:
  "seekFirst r = Some err \<Longrightarrow> BlobDataFromReadSeeker h key mimeType r = (BlobData_zero, None)"
  by (simp add: BlobDataFromReadSeeker_def)

lemma BlobDataFromReadSeeker_seekSecond_error:
  "seekFirst r = None \<Longrightarrow> copyAll r = Inr copied \<Longrightarrow> seekSecond r = Some err \<Longrightarrow>
   BlobDataFromReadSeeker h key mimeType r = (BlobData_zero, Some err)"
  by (simp add: BlobDataFromReadSeeker_def)

lemma UpdateFileOptsFromReadSeeker_seekFirst_error:
  "seekFirst r = Some err \<Longrightarrow> fst (UpdateFileOptsFromReadSeeker h r (Some opts)) = Some err"
  by (simp add: UpdateFileOptsFromReadSeeker_def)

text \<open>
  C8. On a reader whose first \<open>Seek(0, 0)\<close> fails, \<open>BlobDataFromReadSeeker\<close> returns the
  zero \<open>BlobData\<close> with a nil error, whereas \<open>UpdateFileOptsFromReadSeeker\<close> returns the
  seek error.
\<close>

theorem BlobDataFromReadSeeker_swallows_first_seek_error:
  "BlobDataFromReadSeeker h ''html:root'' ''text/html'' failingSeeker = (BlobData_zero, None)
   \<and> fst (UpdateFileOptsFromReadSeeker h failingSeeker (Some opts))
       = Some (ExtErr ''seek: file already closed'')"
  by (simp add: BlobDataFromReadSeeker_def UpdateFileOptsFromReadSeeker_def failingSeeker_def)

section \<open>Appending to a request that is done\<close>

lemma SetData_done:
  "IsDone req \<Longrightarrow> fst (SetData marshalJson ts req path data) \<noteq> None
     \<and> snd (SetData marshalJson ts req path data) = req"
  by (simp add: SetData_def)

lemma InvalidateData_done:
  "IsDone req \<Longrightarrow> fst (InvalidateData ts req path) \<noteq> None \<and> snd (InvalidateData ts req path) = req"
  by (simp add: InvalidateData_def)

lemma sendEvent_done:
  "IsDone req \<Longrightarrow> fst (sendEvent marshalJson ts req selector eventType data) \<noteq> None
     \<and> snd (sendEvent marshalJson ts req selector eventType data) = req"
  by (simp add: sendEvent_def)

lemma flush_done:
  "IsDone req \<Longrightarrow> fst (flush send req) \<noteq> None \<and> snd (flush send req) = req"
  by (simp add: flush_def)

lemma SetHtml_appends:
  "fst (SetHtml ts req html) = None
   \<and> RRActions (snd (SetHtml ts req html))
       = RRActions req @ [\<lparr>Ts = ts, ActionType = ''html'', Selector = [], EventType = [],
                            JsonData = [], Html = html\<rparr>]"
  by (simp add: SetHtml_def appendRR_def)

text \<open>
  C1. On a request that is done, \<open>SetData\<close> returns an error and leaves the actions as they
  are, but \<open>SetHtml\<close>, which does not test \<open>IsDone\<close>, returns nil and appends its action.
\<close>

theorem SetHtml_appends_after_done:
  "IsDone doneReq
   \<and> SetData marshalJson 950 doneReq ''$.y'' 1
       = (Some (Errorf ''Cannot call SetData(), path=$.y, PanelRequest is already done''), doneReq)
   \<and> fst (SetHtml 950 doneReq ''<p>late</p>'') = None
   \<and> RRActions (snd (SetHtml 950 doneReq ''<p>late</p>''))
       = RRActions doneReq @ [\<lparr>Ts = 950, ActionType = ''html'', Selector = [], EventType = [],
                                JsonData = [], Html = ''<p>late</p>''\<rparr>]"
  by (simp add: doneReq_def rootReq_def SetData_def SetHtml_def appendRR_def)

section \<open>The default authentication of a root request\<close>

text \<open>
  C2, as stated, fails: a root handler request whose handler called no authentication
  method, but which arrives already authenticated, is sent by \<open>Done\<close> with no action
  added.
\<close>

theorem Done_authenticated_root_counterexample:
  "isRootReq authedRootReq \<and> \<not> AuthImpl authedRootReq \<and> \<not> IsDone authedRootReq
   \<and> Done (\<lambda>req done. (None, req)) Inr (\<lambda>a. atomType a) 1000 1001 authedRootReq
       = (None, authedRootReq\<lparr>AuthImpl := True\<rparr>)
   \<and> RRActions (authedRootReq\<lparr>AuthImpl := True\<rparr>) = RRActions authedRootReq"
  by (simp add: authedRootReq_def rootReq_def userAtom_def Done_def NoAuth_def isRootReq_def
      isAuthenticated_def getRawAuthData_def)

lemma NoAuth_unauthenticated:
  "\<not> isAuthenticated decode req \<Longrightarrow>
   NoAuth decode jsonMarshal ts1 ts2 req
     = req\<lparr>AuthImpl := True,
           RRActions := RRActions req @
             [\<lparr>Ts = ts2, ActionType = ''panelauth'', Selector = [], EventType = [],
               JsonData = jsonMarshal \<lparr>atomScope = [], atomType = ''noauth'', atomAuto = True,
                                        atomTs = ts1 + 86400000, atomId = [], atomRole = ''user'',
                                        atomData = None\<rparr>,
               Html = []\<rparr>]\<rparr>"
  by (simp add: NoAuth_def isAuthenticated_def getRawAuthData_def appendPanelAuthRRAction_def
      appendRR_def)

lemma NoAuth_authenticated:
  "isAuthenticated decode req \<Longrightarrow> NoAuth decode jsonMarshal ts1 ts2 req = req\<lparr>AuthImpl := True\<rparr>"
  by (simp add: NoAuth_def isAuthenticated_def getRawAuthData_def)

text \<open>
  C2, amended. For a request that is not yet done: when it is a root handler request,
  no authentication method was called on it and it does not arrive authenticated,
  \<open>Done\<close> appends exactly one \<open>panelauth\<close> action, the marshalled atom of type \<open>noauth\<close>,
  role \<open>user\<close>, expiring 86400000 ms after the clock reading, and sends the request with
  \<open>responseDone\<close> set; when it is not a root request, or an authentication method was
  called, or it arrives authenticated, the actions are sent as they are.
\<close>

theorem Done_default_NoAuth:
  assumes "\<not> IsDone req"
  shows "Done send decode jsonMarshal ts1 ts2 req =
           send (if \<not> AuthImpl req \<and> isRootReq req
                 then if isAuthenticated decode req
                      then req\<lparr>AuthImpl := True\<rparr>
                      else req\<lparr>AuthImpl := True,
                               RRActions := RRActions req @
                                 [\<lparr>Ts = ts2, ActionType = ''panelauth'', Selector = [],
                                   EventType = [],
                                   JsonData = jsonMarshal
                                     \<lparr>atomScope = [], atomType = ''noauth'', atomAuto = True,
                                      atomTs = ts1 + 86400000, atomId = [], atomRole = ''user'',
                                      atomData = None\<rparr>,
                                   Html = []\<rparr>]\<rparr>
                 else req) True"
  using assms
  by (simp add: Done_def NoAuth_unauthenticated NoAuth_authenticated)

theorem Done_default_NoAuth_witness:
  "\<not> IsDone rootReq
   \<and> Done (\<lambda>req done. (None, req)) Inr (\<lambda>a. atomType a @ '':'' @ atomRole a) 1000 1001 rootReq
       = (None, rootReq\<lparr>AuthImpl := True,
                        RRActions := RRActions rootReq @
                          [\<lparr>Ts = 1001, ActionType = ''panelauth'', Selector = [], EventType = [],
                            JsonData = ''noauth:user'', Html = []\<rparr>]\<rparr>)"
proof -
  have h: "\<not> IsDone rootReq"
    by (simp add: rootReq_def)
  show ?thesis
    using h Done_default_NoAuth [OF h, of "\<lambda>req done. (None, req)" Inr
        "\<lambda>a. atomType a @ '':'' @ atomRole a" 1000 1001]
    by (simp add: rootReq_def isRootReq_def isAuthenticated_def getRawAuthData_def)
qed

section \<open>The middleware chain\<close>

subsection \<open>Slices and the store\<close>




lemma validSlice_extends:
  "extendsStore h h' \<Longrightarrow> validSlice h s \<Longrightarrow> validSlice h' s"
  by (auto simp: extendsStore_def validSlice_def)

lemma append_slice_elems:
  assumes "append_slice grow s v h = (s1, h1)" and "ownSlice h s"
  shows "sliceElems h1 s1 = sliceElems h s @ [v] \<and> ownSlice h1 s1"
proof (cases "slLen s < slCap s")
  case True
  with assms show ?thesis
    by (auto simp: append_slice_def ownSlice_def sliceElems_def take_Suc_conv_app_nth)
next
  case False
  with assms show ?thesis
    by (auto simp: append_slice_def ownSlice_def sliceElems_def Let_def)
qed

lemma removeMiddleware_loop_frame:
  "removeMiddleware_loop grow name mws i newmws h = (s', h') \<Longrightarrow>
   n \<le> slPtr newmws \<Longrightarrow> n \<le> nextAddr h \<Longrightarrow>
   nextAddr h \<le> nextAddr h' \<and> n \<le> slPtr s' \<and> (\<forall>a < n. cells h' a = cells h a)
   \<and> (slPtr newmws < nextAddr h \<longrightarrow> slPtr s' < nextAddr h')
   \<and> (ownSlice h newmws \<longrightarrow> ownSlice h' s')"
proof (induction grow name mws i newmws h arbitrary: s' h' rule: removeMiddleware_loop.induct)
  case (1 grow name mws i newmws h)
  show ?case
  proof (cases "i < slLen mws")
    case False
    with "1.prems" show ?thesis by simp
  next
    case True
    note lt = this
    show ?thesis
    proof (cases "Name (cells h (slPtr mws) ! i) = name")
      case True
      with lt "1.prems" have "removeMiddleware_loop grow name mws (i + 1) newmws h = (s', h')"
        by (simp add: Let_def)
      from "1.IH"(1) [OF lt refl True this "1.prems"(2,3)] show ?thesis .
    next
      case False
      obtain s1 h1 where ap: "append_slice grow newmws (cells h (slPtr mws) ! i) h = (s1, h1)"
        by (cases "append_slice grow newmws (cells h (slPtr mws) ! i) h")
      with lt False "1.prems" have rec: "removeMiddleware_loop grow name mws (i + 1) s1 h1 = (s', h')"
        by (simp add: Let_def)
      from ap "1.prems"(2,3) have a1: "n \<le> slPtr s1" and a2: "n \<le> nextAddr h1"
        and a3: "nextAddr h \<le> nextAddr h1" and a4: "\<forall>a < n. cells h1 a = cells h a"
        and a5: "slPtr newmws < nextAddr h \<longrightarrow> slPtr s1 < nextAddr h1"
        by (auto simp: append_slice_def Let_def split: if_splits)
      have a6: "ownSlice h newmws \<longrightarrow> ownSlice h1 s1"
        using append_slice_elems [OF ap] by simp
      from "1.IH"(2) [OF lt refl False ap[symmetric] refl rec a1 a2] a3 a4 a5 a6 show ?thesis
        by auto
    qed
  qed
qed

lemma removeMiddleware_loop_elems:
  "removeMiddleware_loop grow name mws i newmws h = (s', h') \<Longrightarrow>
   ownSlice h newmws \<Longrightarrow> n \<le> slPtr newmws \<Longrightarrow> n \<le> nextAddr h \<Longrightarrow>
   slLen mws \<le> length (cells h (slPtr mws)) \<Longrightarrow> slLen mws = 0 \<or> slPtr mws < n \<Longrightarrow>
   sliceElems h' s' = sliceElems h newmws @ filter (\<lambda>m. Name m \<noteq> name) (drop i (sliceElems h mws))"
proof (induction grow name mws i newmws h arbitrary: s' h' rule: removeMiddleware_loop.induct)
  case (1 grow name mws i newmws h)
  show ?case
  proof (cases "i < slLen mws")
    case False
    with "1.prems" show ?thesis by (simp add: sliceElems_def)
  next
    case True
    note lt = this
    from lt "1.prems"(5) have "i < length (sliceElems h mws)"
      by (simp add: sliceElems_def)
    from Cons_nth_drop_Suc [OF this, symmetric] lt
    have dr: "drop i (sliceElems h mws)
        = cells h (slPtr mws) ! i # drop (i + 1) (sliceElems h mws)"
      by (simp add: sliceElems_def)
    from lt "1.prems"(6) have ptr: "slPtr mws < n" by simp
    show ?thesis
    proof (cases "Name (cells h (slPtr mws) ! i) = name")
      case True
      with lt "1.prems" have "removeMiddleware_loop grow name mws (i + 1) newmws h = (s', h')"
        by (simp add: Let_def)
      from "1.IH"(1) [OF lt refl True this "1.prems"(2-6)] True dr show ?thesis
        by simp
    next
      case False
      obtain s1 h1 where ap: "append_slice grow newmws (cells h (slPtr mws) ! i) h = (s1, h1)"
        by (cases "append_slice grow newmws (cells h (slPtr mws) ! i) h")
      with lt False "1.prems" have rec: "removeMiddleware_loop grow name mws (i + 1) s1 h1 = (s', h')"
        by (simp add: Let_def)
      from append_slice_elems [OF ap "1.prems"(2)]
      have e1: "sliceElems h1 s1 = sliceElems h newmws @ [cells h (slPtr mws) ! i]"
        and o1: "ownSlice h1 s1" by simp_all
      from ap "1.prems"(3,4) have a1: "n \<le> slPtr s1" and a2: "n \<le> nextAddr h1"
        and a4: "\<forall>a < n. cells h1 a = cells h a"
        by (auto simp: append_slice_def Let_def split: if_splits)
      from a4 ptr have same: "cells h1 (slPtr mws) = cells h (slPtr mws)" by simp
      then have same': "sliceElems h1 mws = sliceElems h mws" by (simp add: sliceElems_def)
      from "1.prems"(5) same have l1: "slLen mws \<le> length (cells h1 (slPtr mws))" by simp
      from "1.IH"(2) [OF lt refl False ap[symmetric] refl rec o1 a1 a2 l1 "1.prems"(6)]
      show ?thesis using e1 same' dr False by simp
    qed
  qed
qed


lemma removeMiddleware_elems:
  assumes "removeMiddleware grow mws name h = (s', h')" and "validSlice h mws"
  shows "sliceElems h' s' = filter (\<lambda>m. Name m \<noteq> name) (sliceElems h mws) \<and> validSlice h' s'"
proof -
  let ?h1 = "h\<lparr>cells := (cells h)(nextAddr h := []), nextAddr := Suc (nextAddr h)\<rparr>"
  let ?s0 = "\<lparr>slPtr = nextAddr h, slLen = 0, slCap = 0\<rparr>"
  from assms(1) have loop: "removeMiddleware_loop grow name mws 0 ?s0 ?h1 = (s', h')"
    by (simp add: removeMiddleware_def make_slice_def)
  from assms(2) have len: "slLen mws \<le> length (cells ?h1 (slPtr mws))"
    and ptr: "slLen mws = 0 \<or> slPtr mws < nextAddr h"
    by (auto simp: validSlice_def)
  have own: "ownSlice ?h1 ?s0" by (simp add: ownSlice_def)
  from ptr have se: "sliceElems ?h1 mws = sliceElems h mws"
    by (auto simp: sliceElems_def)
  from removeMiddleware_loop_elems [OF loop own _ _ len ptr]
  have e: "sliceElems h' s' = filter (\<lambda>m. Name m \<noteq> name) (sliceElems h mws)"
    by (simp add: se) (simp add: sliceElems_def)
  from removeMiddleware_loop_frame [OF loop, of "nextAddr h"] own
  have "slPtr s' < nextAddr h'" and "ownSlice h' s'"
    by simp_all
  then have "validSlice h' s'"
    by (simp add: validSlice_def ownSlice_def)
  with e show ?thesis by simp
qed


lemma addMiddlewares_elems:
  assumes add: "addMiddlewares srt mws mw h = (s', h')"
    and valid: "validSlice h mws"
    and len: "length (srt (sliceElems h mws @ [mw])) = length (sliceElems h mws @ [mw])"
  shows "sliceElems h' s' = srt (sliceElems h mws @ [mw]) \<and> validSlice h' s'"
proof -
  let ?n = "nextAddr h"
  let ?k = "slLen mws"
  let ?nm = "\<lparr>slPtr = ?n, slLen = Suc ?k, slCap = Suc ?k\<rparr>"
  let ?h1 = "snd (make_slice (Suc ?k) h)"
  let ?h2 = "copy_slice ?nm mws ?h1"
  let ?h3 = "set_index ?nm ?k mw ?h2"
  let ?h4 = "sort_Slice srt ?nm ?h3"
  let ?z = "middlewareType_zero :: ('a, 'b) middlewareType"
  from valid have lenk: "length (sliceElems h mws) = ?k"
    by (simp add: validSlice_def sliceElems_def)
  from add have s': "s' = ?nm" and h': "h' = ?h4"
    by (auto simp: addMiddlewares_def make_slice_def Let_def)
  have c1: "cells ?h1 ?n = replicate (Suc ?k) ?z"
    by (simp add: make_slice_def)
  from valid have src: "take ?k (cells ?h1 (slPtr mws)) = sliceElems h mws"
    by (auto simp: make_slice_def validSlice_def sliceElems_def)
  have dropz: "drop ?k (replicate (Suc ?k) ?z) = [?z]"
    by (simp only: drop_replicate) simp
  have "cells ?h2 ?n = take ?k (cells ?h1 (slPtr mws)) @ drop ?k (cells ?h1 ?n)"
    by (simp add: copy_slice_def Let_def min_def)
  with c1 src dropz have c2: "cells ?h2 ?n = sliceElems h mws @ [?z]"
    by (simp only:)
  have "cells ?h3 ?n = (cells ?h2 ?n)[?k := mw]"
    by (simp add: set_index_def)
  with c2 lenk have c3: "cells ?h3 ?n = sliceElems h mws @ [mw]"
    by (simp only: list_update_append) simp
  have "cells ?h4 ?n = srt (take (Suc ?k) (cells ?h3 ?n)) @ drop (Suc ?k) (cells ?h3 ?n)"
    by (simp add: sort_Slice_def)
  with c3 lenk have c4: "cells ?h4 ?n = srt (sliceElems h mws @ [mw])"
    by simp
  have nx: "nextAddr ?h4 = Suc ?n"
    by (simp add: sort_Slice_def set_index_def copy_slice_def make_slice_def Let_def)
  from len lenk have l: "length (srt (sliceElems h mws @ [mw])) = Suc ?k"
    by simp
  show ?thesis
    unfolding s' h' using c4 l nx by (simp add: sliceElems_def validSlice_def)
qed


lemma RemoveMiddleware_mwList:
  assumes "wfState st"
  shows "mwList (RemoveMiddleware grow name st) = filter (\<lambda>m. Name m \<noteq> name) (mwList st)
       \<and> wfState (RemoveMiddleware grow name st)"
proof -
  obtain h apprt where st: "st = (h, apprt)" by (cases st)
  obtain s' h' where r: "removeMiddleware grow (middlewares apprt) name h = (s', h')"
    by (cases "removeMiddleware grow (middlewares apprt) name h")
  from assms st have "validSlice h (middlewares apprt)" by (simp add: wfState_def)
  from removeMiddleware_elems [OF r this] show ?thesis
    by (simp add: RemoveMiddleware_def st r mwList_def wfState_def)
qed






lemma AddRawMiddleware_locked_mwList:
  assumes wf: "wfState st" and len: "\<And>xs. length (srt xs) = length xs"
  shows "mwList (AddRawMiddleware_locked srt name mwFunc priority st)
           = srt (mwList st @ [\<lparr>Name = name, Fn = mwFunc, Priority = priority\<rparr>])
       \<and> wfState (AddRawMiddleware_locked srt name mwFunc priority st)"
proof -
  obtain h apprt where st: "st = (h, apprt)" by (cases st)
  obtain s' h' where a: "addMiddlewares srt (middlewares apprt)
      \<lparr>Name = name, Fn = mwFunc, Priority = priority\<rparr> h = (s', h')"
    by (cases "addMiddlewares srt (middlewares apprt)
      \<lparr>Name = name, Fn = mwFunc, Priority = priority\<rparr> h")
  from wf st have v: "validSlice h (middlewares apprt)"
    by (simp add: wfState_def)
  from addMiddlewares_elems [OF a v len] show ?thesis
    by (simp add: AddRawMiddleware_locked_def st a mwList_def wfState_def)
qed

lemma AddRawMiddleware_mwList:
  assumes wf: "wfState st" and len: "\<And>xs. length (srt xs) = length xs"
  shows "mwList (AddRawMiddleware srt grow name mwFunc priority st)
           = srt (filter (\<lambda>m. Name m \<noteq> name) (mwList st)
                  @ [\<lparr>Name = name, Fn = mwFunc, Priority = priority\<rparr>])
       \<and> wfState (AddRawMiddleware srt grow name mwFunc priority st)"
proof -
  from RemoveMiddleware_mwList [OF wf, of grow name]
  have e1: "mwList (RemoveMiddleware grow name st) = filter (\<lambda>m. Name m \<noteq> name) (mwList st)"
    and w1: "wfState (RemoveMiddleware grow name st)"
    by simp_all
  from AddRawMiddleware_locked_mwList [OF w1 len, of name mwFunc priority] e1 show ?thesis
    by (simp add: AddRawMiddleware_def)
qed

subsection \<open>Comparing priorities\<close>

lemma f64_gt_asym: "f64_gt a b \<Longrightarrow> \<not> f64_gt b a"
  by (cases a; cases b) simp_all

lemma f64_not_gt_trans:
  "b \<noteq> NaN \<Longrightarrow> \<not> f64_gt a b \<Longrightarrow> \<not> f64_gt b c \<Longrightarrow> \<not> f64_gt a c"
  by (cases a; cases b; cases c) simp_all

subsection \<open>The two sorting functions meet the contract\<close>

lemma mset_insertLeft: "mset (insertLeft x acc) = add_mset x (mset acc)"
  by (induction acc) simp_all

lemma set_insertLeft: "set (insertLeft x acc) = insert x (set acc)"
  by (induction acc) auto

lemma mset_foldl_insertLeft: "mset (foldl (\<lambda>acc x. insertLeft x acc) acc xs) = mset acc + mset xs"
  by (induction xs arbitrary: acc) (simp_all add: mset_insertLeft)

lemma mset_insertionSort_func: "mset (insertionSort_func xs) = mset xs"
  by (simp add: insertionSort_func_def mset_foldl_insertLeft)

lemma ascendingAcc_insertLeft:
  "ascendingAcc acc \<Longrightarrow> \<forall>m \<in> set acc. Priority m \<noteq> NaN \<Longrightarrow> ascendingAcc (insertLeft x acc)"
proof (induction acc)
  case Nil
  then show ?case by (simp add: ascendingAcc_def)
next
  case (Cons y ys)
  from Cons.prems have ys: "ascendingAcc ys" and nn: "\<forall>m \<in> set ys. Priority m \<noteq> NaN"
    and y: "Priority y \<noteq> NaN" and yle: "\<forall>z \<in> set ys. \<not> f64_gt (Priority y) (Priority z)"
    by (simp_all add: ascendingAcc_def)
  show ?case
  proof (cases "f64_gt (Priority x) (Priority y)")
    case True
    from Cons.IH [OF ys nn] have "ascendingAcc (insertLeft x ys)" .
    with True yle show ?thesis
      by (auto simp: ascendingAcc_def set_insertLeft dest: f64_gt_asym)
  next
    case False
    have "\<forall>z \<in> set ys. \<not> f64_gt (Priority x) (Priority z)"
      using f64_not_gt_trans [OF y False] yle by blast
    with False Cons.prems show ?thesis
      by (simp add: ascendingAcc_def)
  qed
qed

lemma ascendingAcc_foldl:
  "ascendingAcc acc \<Longrightarrow> \<forall>m \<in> set acc \<union> set xs. Priority m \<noteq> NaN \<Longrightarrow>
   ascendingAcc (foldl (\<lambda>acc x. insertLeft x acc) acc xs)"
proof (induction xs arbitrary: acc)
  case Nil
  then show ?case by simp
next
  case (Cons x xs)
  from Cons.prems have "ascendingAcc (insertLeft x acc)"
    by (simp add: ascendingAcc_insertLeft)
  moreover from Cons.prems have "\<forall>m \<in> set (insertLeft x acc) \<union> set xs. Priority m \<noteq> NaN"
    by (auto simp: set_insertLeft)
  ultimately show ?case using Cons.IH by simp
qed

lemma descending_insertionSort_func:
  "\<forall>m \<in> set xs. Priority m \<noteq> NaN \<Longrightarrow> descending (insertionSort_func xs)"
proof -
  assume "\<forall>m \<in> set xs. Priority m \<noteq> NaN"
  then have "ascendingAcc (foldl (\<lambda>acc x. insertLeft x acc) [] xs)"
    using ascendingAcc_foldl [of "[]" xs] by (simp add: ascendingAcc_def)
  then show ?thesis
    by (simp add: descending_def insertionSort_func_def ascendingAcc_def sorted_wrt_rev)
qed

lemma sortSliceSpec_insertionSort_func: "sortSliceSpec insertionSort_func"
  by (simp add: sortSliceSpec_def mset_insertionSort_func descending_insertionSort_func)






lemma sortSliceSpec_length: "sortSliceSpec srt \<Longrightarrow> length (srt xs) = length xs"
  by (metis sortSliceSpec_def size_mset)

lemma sortSliceSpec_set: "sortSliceSpec srt \<Longrightarrow> set (srt xs) = set xs"
  by (metis sortSliceSpec_def set_mset_mset)

subsection \<open>Sequences of calls\<close>



lemma orderedState_initial: "orderedState (emptyStore, MakeAppRuntime)"
  by (simp add: orderedState_def wfState_def validSlice_def mwList_def sliceElems_def
      descending_def MakeAppRuntime_def nilSlice_def emptyStore_def)

lemma descending_filter: "descending xs \<Longrightarrow> descending (filter P xs)"
  by (simp add: descending_def sorted_wrt_filter)

lemma orderedState_applyCall:
  assumes spec: "sortSliceSpec srt" and ord: "orderedState st" and num: "callPriorityIsNumber c"
  shows "orderedState (applyCall srt grow st c)"
proof (cases c)
  case (CallAddRawMiddleware name mwFunc priority)
  let ?new = "\<lparr>Name = name, Fn = mwFunc, Priority = priority\<rparr>"
  let ?xs = "filter (\<lambda>m. Name m \<noteq> name) (mwList st) @ [?new]"
  from ord have wf: "wfState st" by (simp add: orderedState_def)
  from AddRawMiddleware_mwList [OF wf sortSliceSpec_length [OF spec], of grow name mwFunc priority]
  have l: "mwList (AddRawMiddleware srt grow name mwFunc priority st) = srt ?xs"
    and w: "wfState (AddRawMiddleware srt grow name mwFunc priority st)"
    by simp_all
  from ord num CallAddRawMiddleware have nn: "\<forall>m \<in> set ?xs. Priority m \<noteq> NaN"
    by (auto simp: orderedState_def)
  with spec have d: "descending (srt ?xs)"
    by (simp add: sortSliceSpec_def)
  from nn sortSliceSpec_set [OF spec, of ?xs] have "\<forall>m \<in> set (srt ?xs). Priority m \<noteq> NaN"
    by simp
  with l w d CallAddRawMiddleware show ?thesis
    by (simp add: orderedState_def)
next
  case (CallAddLocked name mwFunc priority)
  let ?new = "\<lparr>Name = name, Fn = mwFunc, Priority = priority\<rparr>"
  let ?xs = "mwList st @ [?new]"
  from ord have wf: "wfState st" by (simp add: orderedState_def)
  from AddRawMiddleware_locked_mwList [OF wf sortSliceSpec_length [OF spec], of name mwFunc priority]
  have l: "mwList (AddRawMiddleware_locked srt name mwFunc priority st) = srt ?xs"
    and w: "wfState (AddRawMiddleware_locked srt name mwFunc priority st)"
    by simp_all
  from ord num CallAddLocked have nn: "\<forall>m \<in> set ?xs. Priority m \<noteq> NaN"
    by (auto simp: orderedState_def)
  with spec have d: "descending (srt ?xs)"
    by (simp add: sortSliceSpec_def)
  from nn sortSliceSpec_set [OF spec, of ?xs] have "\<forall>m \<in> set (srt ?xs). Priority m \<noteq> NaN"
    by simp
  with l w d CallAddLocked show ?thesis
    by (simp add: orderedState_def)
next
  case (CallRemoveMiddleware name)
  from ord have wf: "wfState st" by (simp add: orderedState_def)
  from RemoveMiddleware_mwList [OF wf, of grow name] ord CallRemoveMiddleware show ?thesis
    by (simp add: orderedState_def descending_filter)
next
  case (CallSetHandler path handler)
  with ord show ?thesis
    by (simp add: orderedState_def wfState_def mwList_def setHandler_def)
qed

lemma orderedState_applyCalls:
  assumes spec: "sortSliceSpec srt"
  shows "orderedState st \<Longrightarrow> \<forall>c \<in> set calls. callPriorityIsNumber c \<Longrightarrow>
         orderedState (applyCalls srt grow st calls)"
proof (induction calls arbitrary: st)
  case Nil
  then show ?case by (simp add: applyCalls_def)
next
  case (Cons c calls)
  from Cons.prems have "orderedState (applyCall srt grow st c)"
    by (simp add: orderedState_applyCall [OF spec])
  from Cons.IH [OF this] Cons.prems(2) show ?case
    by (simp add: applyCalls_def)
qed

subsection \<open>The chain that \<open>mwAppHelper\<close> runs\<close>


subsection \<open>The calls on the list of entries\<close>







section \<open>The order of the middleware chain\<close>





section \<open>Adding a middleware under a name twice\<close>


lemma foldl_insertLeft_descending:
  "descending (rev acc @ ys) \<Longrightarrow> foldl (\<lambda>acc x. insertLeft x acc) acc ys = rev ys @ acc"
proof (induction ys arbitrary: acc)
  case Nil
  then show ?case by simp
next
  case (Cons y ys)
  from Cons.prems have "insertLeft y acc = y # acc"
    by (cases acc) (auto simp: descending_def sorted_wrt_append)
  with Cons.IH [of "y # acc"] Cons.prems show ?case
    by simp
qed

lemma insertionSort_func_descending: "descending ys \<Longrightarrow> insertionSort_func ys = ys"
  using foldl_insertLeft_descending [of "[]" ys] by (simp add: insertionSort_func_def)

lemma insertionSort_func_snoc:
  "descending ys \<Longrightarrow> insertionSort_func (ys @ [m]) = rev (insertLeft m (rev ys))"
  using foldl_insertLeft_descending [of "[]" ys] by (simp add: insertionSort_func_def)

lemma filter_insertLeft: "\<not> P m \<Longrightarrow> filter P (insertLeft m acc) = filter P acc"
  by (induction acc) simp_all

text \<open>With the insertion sort, which keeps equal priorities in their order, adding twice
  and adding once leave the same chain.\<close>

lemma AddRawMiddleware_twice_insertionSort:
  assumes nums: "\<forall>c \<in> set calls. callPriorityIsNumber c"
    and st: "st = applyCalls insertionSort_func grow (emptyStore, MakeAppRuntime) calls"
  shows "mwList (AddRawMiddleware insertionSort_func grow name f2 p2
                   (AddRawMiddleware insertionSort_func grow name f1 p1 st))
       = mwList (AddRawMiddleware insertionSort_func grow name f2 p2 st)"
proof -
  let ?srt = "insertionSort_func :: ('a, 'b) middlewareType list \<Rightarrow> _"
  let ?m1 = "\<lparr>Name = name, Fn = f1, Priority = p1\<rparr>"
  let ?st1 = "AddRawMiddleware ?srt grow name f1 p1 st"
  let ?keep = "filter (\<lambda>m. Name m \<noteq> name)"
  note spec = sortSliceSpec_insertionSort_func
  note len = sortSliceSpec_length [OF spec]
  from orderedState_applyCalls [OF spec orderedState_initial nums] st
  have o: "orderedState st" by simp
  then have wf: "wfState st" and d: "descending (?keep (mwList st))"
    by (simp_all add: orderedState_def descending_filter)
  from AddRawMiddleware_mwList [OF wf len, of grow name f1 p1]
  have l1: "mwList ?st1 = ?srt (?keep (mwList st) @ [?m1])" and wf1: "wfState ?st1"
    by simp_all
  have "?keep (mwList ?st1) = ?keep (mwList st)"
    by (simp add: l1 insertionSort_func_snoc [OF d] filter_insertLeft flip: rev_filter)
  with AddRawMiddleware_mwList [OF wf1 len, of grow name f2 p2]
    AddRawMiddleware_mwList [OF wf len, of grow name f2 p2]
  show ?thesis by simp
qed





end
